theory Spec2Isabelle
  imports Main
begin

section \<open>Values of a request\<close>

text \<open>
  The resources of \<^verbatim>\<open>pytaskmanager/server/resource/task.py\<close> read a request body that
  Flask has decoded from JSON. A decoded value is one of Python's \<^verbatim>\<open>None\<close>, \<^verbatim>\<open>bool\<close>,
  \<^verbatim>\<open>int\<close>, \<^verbatim>\<open>str\<close>, \<^verbatim>\<open>list\<close> and \<^verbatim>\<open>dict\<close>. Numbers are the integers: floating-point
  numbers are outside this development. A \<^verbatim>\<open>dict\<close> is kept as the list of its items in
  insertion order.
\<close>

datatype json =
    JNull
  | JBool bool
  | JInt int
  | JStr string
  | JArr "json list"
  | JObj "(string \<times> json) list"

text \<open>Python's truth value of a decoded value, as \<^verbatim>\<open>if not x\<close> tests it.\<close>

fun truthy :: "json \<Rightarrow> bool" where
  "truthy JNull = False"
| "truthy (JBool b) = b"
| "truthy (JInt i) = (i \<noteq> 0)"
| "truthy (JStr s) = (s \<noteq> [])"
| "truthy (JArr xs) = (xs \<noteq> [])"
| "truthy (JObj kvs) = (kvs \<noteq> [])"

text \<open>
  The body of the request, \<^verbatim>\<open>data = request.get_json()\<close>, is a dictionary.
  \<^verbatim>\<open>data.get(k)\<close> is \<^verbatim>\<open>None\<close> for a key that is not there, which is also what a JSON
  \<^verbatim>\<open>null\<close> decodes to; \<^verbatim>\<open>data.get(k, d)\<close> is \<^verbatim>\<open>d\<close> for a key that is not there.
\<close>

type_synonym payload = "string \<rightharpoonup> json"

definition py_get :: "payload \<Rightarrow> string \<Rightarrow> json" where
  "py_get data k = (case data k of None \<Rightarrow> JNull | Some v \<Rightarrow> v)"

definition py_get_default :: "payload \<Rightarrow> string \<Rightarrow> json \<Rightarrow> json" where
  "py_get_default data k d = (case data k of None \<Rightarrow> d | Some v \<Rightarrow> v)"

subsection \<open>Text of a value\<close>

text \<open>Python's \<^verbatim>\<open>str\<close> of an \<^verbatim>\<open>int\<close>: decimal digits, with a minus sign below zero.\<close>

definition digit_char :: "nat \<Rightarrow> char" where
  "digit_char d = char_of (48 + d)"

function str_nat :: "nat \<Rightarrow> string" where
  "str_nat n = (if n < 10 then [digit_char n] else str_nat (n div 10) @ [digit_char (n mod 10)])"
  by pat_completeness auto
termination
  by (relation "measure id") auto

declare str_nat.simps [simp del]

definition str_int :: "int \<Rightarrow> string" where
  "str_int i = (if i < 0 then CHR ''-'' # str_nat (nat (- i)) else str_nat (nat i))"

text \<open>
  Two lower-case hexadecimal digits of a character code, as in Python's \<^verbatim>\<open>'\\x%02x'\<close>.
\<close>

definition hex_char :: "nat \<Rightarrow> char" where
  "hex_char d = (if d < 10 then char_of (48 + d) else char_of (87 + d))"

definition hex2 :: "char \<Rightarrow> string" where
  "hex2 c = [hex_char (of_char c div 16), hex_char (of_char c mod 16)]"

text \<open>
  Python's \<^verbatim>\<open>repr\<close> of a \<^verbatim>\<open>str\<close>, on characters up to code 255: single quotes unless
  the text holds a single quote and no double quote; the quote, the backslash, tab,
  newline and carriage return escaped; every other character that is not printable
  written \<^verbatim>\<open>\\xNN\<close>.
\<close>

definition quote_char :: char where
  "quote_char = char_of (39 :: nat)"

definition dquote_char :: char where
  "dquote_char = char_of (34 :: nat)"

definition backslash :: char where
  "backslash = char_of (92 :: nat)"

definition printable :: "char \<Rightarrow> bool" where
  "printable c = (let n = (of_char c :: nat) in
     (32 \<le> n \<and> n \<le> 126) \<or> (161 \<le> n \<and> n \<noteq> 173))"

definition repr_char :: "char \<Rightarrow> char \<Rightarrow> string" where
  "repr_char q c =
     (if c = q \<or> c = backslash then [backslash, c]
      else if c = char_of (9 :: nat) then [backslash, CHR ''t'']
      else if c = char_of (10 :: nat) then [backslash, CHR ''n'']
      else if c = char_of (13 :: nat) then [backslash, CHR ''r'']
      else if printable c then [c]
      else backslash # CHR ''x'' # hex2 c)"

definition repr_str :: "string \<Rightarrow> string" where
  "repr_str s =
     (let q = (if quote_char \<in> set s \<and> dquote_char \<notin> set s then dquote_char else quote_char)
      in q # concat (map (repr_char q) s) @ [q])"

text \<open>\<^verbatim>\<open>', '.join(xs)\<close>.\<close>

fun join_comma :: "string list \<Rightarrow> string" where
  "join_comma [] = []"
| "join_comma [x] = x"
| "join_comma (x # y # ys) = x @ '', '' @ join_comma (y # ys)"

text \<open>
  Python's \<^verbatim>\<open>repr\<close> of a decoded value, and its \<^verbatim>\<open>str\<close>, which \<^verbatim>\<open>'{}'.format(x)\<close>
  inserts: they differ on a \<^verbatim>\<open>str\<close> only.
\<close>

fun py_repr :: "json \<Rightarrow> string" where
  "py_repr JNull = ''None''"
| "py_repr (JBool b) = (if b then ''True'' else ''False'')"
| "py_repr (JInt i) = str_int i"
| "py_repr (JStr s) = repr_str s"
| "py_repr (JArr xs) = ''['' @ join_comma (map py_repr xs) @ '']''"
| "py_repr (JObj kvs) =
     ''{'' @ join_comma (map (\<lambda>(k, v). repr_str k @ '': '' @ py_repr v) kvs) @ ''}''"

definition py_str :: "json \<Rightarrow> string" where
  "py_str v = (case v of JStr s \<Rightarrow> s | _ \<Rightarrow> py_repr v)"

subsection \<open>JSON text of a value\<close>

text \<open>
  Python's \<^verbatim>\<open>json.dumps\<close> with its default arguments: \<^verbatim>\<open>', '\<close> between items,
  \<^verbatim>\<open>': '\<close> after a key, and in a string every character outside \<^verbatim>\<open>' '..'~'\<close>, the
  double quote and the backslash escaped (\<^verbatim>\<open>ensure_ascii\<close>).
\<close>

definition hex4 :: "char \<Rightarrow> string" where
  "hex4 c = ''00'' @ hex2 c"

definition json_escape_char :: "char \<Rightarrow> string" where
  "json_escape_char c =
     (if c = dquote_char \<or> c = backslash then [backslash, c]
      else if c = char_of (8 :: nat) then [backslash, CHR ''b'']
      else if c = char_of (12 :: nat) then [backslash, CHR ''f'']
      else if c = char_of (10 :: nat) then [backslash, CHR ''n'']
      else if c = char_of (13 :: nat) then [backslash, CHR ''r'']
      else if c = char_of (9 :: nat) then [backslash, CHR ''t'']
      else if 32 \<le> (of_char c :: nat) \<and> (of_char c :: nat) \<le> 126 then [c]
      else backslash # CHR ''u'' # hex4 c)"

definition json_string :: "string \<Rightarrow> string" where
  "json_string s = dquote_char # concat (map json_escape_char s) @ [dquote_char]"

fun json_dumps :: "json \<Rightarrow> string" where
  "json_dumps JNull = ''null''"
| "json_dumps (JBool b) = (if b then ''true'' else ''false'')"
| "json_dumps (JInt i) = str_int i"
| "json_dumps (JStr s) = json_string s"
| "json_dumps (JArr xs) = ''['' @ join_comma (map json_dumps xs) @ '']''"
| "json_dumps (JObj kvs) =
     ''{'' @ join_comma (map (\<lambda>(k, v). json_string k @ '': '' @ json_dumps v) kvs) @ ''}''"

subsection \<open>Reading JSON text\<close>

text \<open>
  Python's \<^verbatim>\<open>json.loads\<close>, by which a reader of a stored input gets the value back, on
  the values of this development: whitespace between the tokens, the words \<^verbatim>\<open>null\<close>,
  \<^verbatim>\<open>true\<close> and \<^verbatim>\<open>false\<close>, integers (a number with a fraction or an exponent is a
  floating-point number and is refused here), strings with their escapes (an escape
  \<^verbatim>\<open>\\uXXXX\<close> above code 255 is refused here, a raw control character is refused as
  Python does), arrays and objects. An object is returned as the list of its items in
  the order of the text. The functions for values, elements and members call each other
  with a bound on the depth of the calls, which \<^verbatim>\<open>json_loads\<close> sets to the length of
  the text plus one; they return \<^verbatim>\<open>None\<close> when the text is not JSON or the bound is
  used up.
\<close>

definition is_ws :: "char \<Rightarrow> bool" where
  "is_ws c = (c = CHR '' '' \<or> c = char_of (9 :: nat) \<or> c = char_of (10 :: nat) \<or> c = char_of (13 :: nat))"

definition skip_ws :: "string \<Rightarrow> string" where
  "skip_ws s = dropWhile is_ws s"

definition is_digit :: "char \<Rightarrow> bool" where
  "is_digit c = (48 \<le> (of_char c :: nat) \<and> (of_char c :: nat) \<le> 57)"

definition nat_of_digits :: "string \<Rightarrow> nat" where
  "nat_of_digits ds = foldl (\<lambda>a c. 10 * a + (of_char c - 48)) 0 ds"

definition float_follows :: "string \<Rightarrow> bool" where
  "float_follows r = (case r of [] \<Rightarrow> False | c # _ \<Rightarrow> c = CHR ''.'' \<or> c = CHR ''e'' \<or> c = CHR ''E'')"

definition parse_nat :: "string \<Rightarrow> (nat \<times> string) option" where
  "parse_nat s =
     (let ds = (case s of [] \<Rightarrow> [] | c # r \<Rightarrow> if c = CHR ''0'' then [c] else takeWhile is_digit s);
          r = drop (length ds) s
      in if ds = [] \<or> float_follows r then None else Some (nat_of_digits ds, r))"

definition parse_int :: "string \<Rightarrow> (json \<times> string) option" where
  "parse_int s =
     (case s of
        [] \<Rightarrow> None
      | c # r \<Rightarrow>
          if c = CHR ''-'' then
            (case parse_nat r of None \<Rightarrow> None | Some (n, r') \<Rightarrow> Some (JInt (- int n), r'))
          else (case parse_nat s of None \<Rightarrow> None | Some (n, r') \<Rightarrow> Some (JInt (int n), r')))"

definition hex_val :: "char \<Rightarrow> nat option" where
  "hex_val c =
     (let n = (of_char c :: nat) in
      if 48 \<le> n \<and> n \<le> 57 then Some (n - 48)
      else if 97 \<le> n \<and> n \<le> 102 then Some (n - 87)
      else if 65 \<le> n \<and> n \<le> 70 then Some (n - 55)
      else None)"

definition hex4_val :: "char \<Rightarrow> char \<Rightarrow> char \<Rightarrow> char \<Rightarrow> nat option" where
  "hex4_val a b c d =
     (case (hex_val a, hex_val b, hex_val c, hex_val d) of
        (Some w, Some x, Some y, Some z) \<Rightarrow> Some (((w * 16 + x) * 16 + y) * 16 + z)
      | _ \<Rightarrow> None)"

definition simple_escape :: "char \<Rightarrow> char option" where
  "simple_escape e =
     (if e = dquote_char \<or> e = backslash \<or> e = CHR ''/'' then Some e
      else if e = CHR ''b'' then Some (char_of (8 :: nat))
      else if e = CHR ''f'' then Some (char_of (12 :: nat))
      else if e = CHR ''n'' then Some (char_of (10 :: nat))
      else if e = CHR ''r'' then Some (char_of (13 :: nat))
      else if e = CHR ''t'' then Some (char_of (9 :: nat))
      else None)"

definition cons_char :: "char \<Rightarrow> (string \<times> string) option \<Rightarrow> (string \<times> string) option" where
  "cons_char c p = (case p of None \<Rightarrow> None | Some (t, r) \<Rightarrow> Some (c # t, r))"

fun parse_chars :: "string \<Rightarrow> (string \<times> string) option" where
  "parse_chars [] = None"
| "parse_chars (c # s) =
     (if c = dquote_char then Some ([], s)
      else if c = backslash then
        (case s of
           [] \<Rightarrow> None
         | e # s1 \<Rightarrow>
             if e = CHR ''u'' then
               (case s1 of
                  h1 # h2 # h3 # h4 # s2 \<Rightarrow>
                    (case hex4_val h1 h2 h3 h4 of
                       None \<Rightarrow> None
                     | Some n \<Rightarrow> if n < 256 then cons_char (char_of n) (parse_chars s2) else None)
                | _ \<Rightarrow> None)
             else (case simple_escape e of
                     None \<Rightarrow> None
                   | Some d \<Rightarrow> cons_char d (parse_chars s1)))
      else if (of_char c :: nat) < 32 then None
      else cons_char c (parse_chars s))"

definition expect_word :: "string \<Rightarrow> json \<Rightarrow> string \<Rightarrow> (json \<times> string) option" where
  "expect_word w v s = (if take (length w) s = w then Some (v, drop (length w) s) else None)"

fun parse_value :: "nat \<Rightarrow> string \<Rightarrow> (json \<times> string) option"
  and parse_elements :: "nat \<Rightarrow> string \<Rightarrow> (json list \<times> string) option"
  and parse_members :: "nat \<Rightarrow> string \<Rightarrow> ((string \<times> json) list \<times> string) option" where
  "parse_value 0 s = None"
| "parse_value (Suc n) s =
     (case skip_ws s of
        [] \<Rightarrow> None
      | c # r \<Rightarrow>
          if c = CHR ''n'' then expect_word ''ull'' JNull r
          else if c = CHR ''t'' then expect_word ''rue'' (JBool True) r
          else if c = CHR ''f'' then expect_word ''alse'' (JBool False) r
          else if c = dquote_char then
            (case parse_chars r of None \<Rightarrow> None | Some (t, r') \<Rightarrow> Some (JStr t, r'))
          else if c = CHR ''['' then
            (case skip_ws r of
               [] \<Rightarrow> None
             | d # r' \<Rightarrow>
                 if d = CHR '']'' then Some (JArr [], r')
                 else (case parse_elements n r of
                         None \<Rightarrow> None
                       | Some (vs, r'') \<Rightarrow> Some (JArr vs, r'')))
          else if c = CHR ''{'' then
            (case skip_ws r of
               [] \<Rightarrow> None
             | d # r' \<Rightarrow>
                 if d = CHR ''}'' then Some (JObj [], r')
                 else (case parse_members n r of
                         None \<Rightarrow> None
                       | Some (kvs, r'') \<Rightarrow> Some (JObj kvs, r'')))
          else parse_int (c # r))"
| "parse_elements 0 s = None"
| "parse_elements (Suc n) s =
     (case parse_value n s of
        None \<Rightarrow> None
      | Some (v, r) \<Rightarrow>
          (case skip_ws r of
             [] \<Rightarrow> None
           | c # r' \<Rightarrow>
               if c = CHR '','' then
                 (case parse_elements n r' of
                    None \<Rightarrow> None
                  | Some (vs, r'') \<Rightarrow> Some (v # vs, r''))
               else if c = CHR '']'' then Some ([v], r')
               else None))"
| "parse_members 0 s = None"
| "parse_members (Suc n) s =
     (case skip_ws s of
        [] \<Rightarrow> None
      | q # s1 \<Rightarrow>
          if q \<noteq> dquote_char then None
          else (case parse_chars s1 of
                  None \<Rightarrow> None
                | Some (k, s2) \<Rightarrow>
                    (case skip_ws s2 of
                       [] \<Rightarrow> None
                     | c # s3 \<Rightarrow>
                         if c \<noteq> CHR '':'' then None
                         else (case parse_value n s3 of
                                 None \<Rightarrow> None
                               | Some (v, r) \<Rightarrow>
                                   (case skip_ws r of
                                      [] \<Rightarrow> None
                                    | d # r' \<Rightarrow>
                                        if d = CHR '','' then
                                          (case parse_members n r' of
                                             None \<Rightarrow> None
                                           | Some (kvs, r'') \<Rightarrow> Some ((k, v) # kvs, r''))
                                        else if d = CHR ''}'' then Some ([(k, v)], r')
                                        else None)))))"


section \<open>The database\<close>

text \<open>
  The resources work on the object-relational layer \<^verbatim>\<open>pytaskmanager.server.db\<close>, whose
  code is not part of the sources at hand. The store below holds what the resources
  read and write: the rows of the tasks and of the task results, and the counters from
  which fresh identifiers are taken.
\<close>

record task_row =
  t_id :: int
  t_collaboration_id :: int
  t_name :: json
  t_description :: json
  t_image :: json
  t_input :: string
  t_status :: string

record result_row =
  r_id :: int
  r_task_id :: int
  r_node_id :: int

record store =
  tasks :: "task_row list"
  results :: "result_row list"
  next_task_id :: int
  next_result_id :: int

definition empty_store :: store where
  "empty_store = \<lparr>tasks = [], results = [], next_task_id = 1, next_result_id = 1\<rparr>"

text \<open>
  A collaboration as the directory of collaborations gives it: its id, its name and the
  ids of its member nodes, in the order in which \<^verbatim>\<open>collaboration.nodes\<close> lists them.
\<close>

record collaboration =
  c_id :: int
  c_name :: string
  c_nodes :: "int list"

text \<open>
  The \<^verbatim>\<open>db.Task\<close> object that \<^verbatim>\<open>Task.post\<close> builds: its id is \<^verbatim>\<open>None\<close> until it has been
  saved, and \<^verbatim>\<open>o_pending\<close> lists the nodes of the \<^verbatim>\<open>db.TaskResult\<close> objects that were
  constructed for it and are not stored yet.
\<close>

record task_obj =
  o_id :: "int option"
  o_collaboration :: collaboration
  o_name :: json
  o_description :: json
  o_image :: json
  o_input :: string
  o_status :: string
  o_pending :: "int list"

datatype exn = PersistenceFailure | TypeError | AttributeError

definition row_of :: "int \<Rightarrow> task_obj \<Rightarrow> task_row" where
  "row_of i obj =
     \<lparr>t_id = i, t_collaboration_id = c_id (o_collaboration obj), t_name = o_name obj,
      t_description = o_description obj, t_image = o_image obj, t_input = o_input obj,
      t_status = o_status obj\<rparr>"

text \<open>
  Modelled from the spec: \<^verbatim>\<open>db.TaskResult(task=..., node=...)\<close> followed by a save, which
  is not in the sources. Each pending result becomes one row that refers to the task
  and to its node, with a fresh id.
\<close>

fun insert_results :: "int \<Rightarrow> int list \<Rightarrow> store \<Rightarrow> store" where
  "insert_results tid [] st = st"
| "insert_results tid (n # ns) st =
     insert_results tid ns
       (st\<lparr>results := results st @ [\<lparr>r_id = next_result_id st, r_task_id = tid, r_node_id = n\<rparr>],
           next_result_id := next_result_id st + 1\<rparr>)"

text \<open>
  Modelled from the spec: \<^verbatim>\<open>db.Task.save\<close>, which is not in the sources. The Task Store
  persists the task, assigning its id when it has none, together with the results
  constructed alongside it, as one unit: all of it is written, or the save fails with a
  persistence failure and nothing is. Whether a save goes through is the argument
  \<^verbatim>\<open>ok\<close>.
\<close>

definition db_Task_save :: "bool \<Rightarrow> task_obj \<Rightarrow> store \<Rightarrow> exn + (task_obj \<times> store)" where
  "db_Task_save ok obj st =
     (if \<not> ok then Inl PersistenceFailure
      else case o_id obj of
        None \<Rightarrow>
          (let i = next_task_id st;
               st1 = st\<lparr>tasks := tasks st @ [row_of i obj], next_task_id := i + 1\<rparr>
           in Inr (obj\<lparr>o_id := Some i, o_pending := []\<rparr>, insert_results i (o_pending obj) st1))
      | Some i \<Rightarrow>
          (let st1 = st\<lparr>tasks := map (\<lambda>t. if t_id t = i then row_of i obj else t) (tasks st)\<rparr>
           in Inr (obj\<lparr>o_pending := []\<rparr>, insert_results i (o_pending obj) st1)))"

text \<open>
  Modelled from the spec: \<^verbatim>\<open>db.Task.get\<close>, which is not in the sources. With an id it is
  the task of that id, or \<^verbatim>\<open>None\<close> when there is none; without an id it is the list of
  all tasks.
\<close>

datatype lookup = NoTask | Found task_row | Listing "task_row list"

definition db_Task_get :: "store \<Rightarrow> int option \<Rightarrow> lookup" where
  "db_Task_get st ident =
     (case ident of
        None \<Rightarrow> Listing (tasks st)
      | Some i \<Rightarrow> (case find (\<lambda>t. t_id t = i) (tasks st) of None \<Rightarrow> NoTask | Some t \<Rightarrow> Found t))"

text \<open>Python's \<^verbatim>\<open>not task\<close> on what \<^verbatim>\<open>db.Task.get\<close> returned: true of \<^verbatim>\<open>None\<close> and of the empty list.\<close>

fun falsy :: "lookup \<Rightarrow> bool" where
  "falsy NoTask = True"
| "falsy (Found t) = False"
| "falsy (Listing ts) = (ts = [])"

text \<open>
  Modelled from the spec: the relationship \<^verbatim>\<open>task.results\<close>, which is not in the sources:
  the results that refer to the task, in the order of the store.
\<close>

definition db_Task_results :: "store \<Rightarrow> int \<Rightarrow> result_row list" where
  "db_Task_results st i = filter (\<lambda>r. r_task_id r = i) (results st)"

text \<open>
  Modelled from the spec: \<^verbatim>\<open>db.Task.delete\<close>, which is not in the sources. The Task
  Store removes the task and, with it, all the results that the task owns, as one unit;
  or it fails with a persistence failure and removes nothing (the argument \<^verbatim>\<open>ok\<close>).
\<close>

definition db_Task_delete :: "bool \<Rightarrow> task_row \<Rightarrow> store \<Rightarrow> exn + store" where
  "db_Task_delete ok t st =
     (if \<not> ok then Inl PersistenceFailure
      else Inr (st\<lparr>tasks := filter (\<lambda>x. t_id x \<noteq> t_id t) (tasks st),
                  results := filter (\<lambda>r. r_task_id r \<noteq> t_id t) (results st)\<rparr>))"

section \<open>The resources\<close>

datatype http_status = OK | BAD_REQUEST | NOT_FOUND

record task_view =
  v_task :: task_row
  v_results :: "result_row list option"

datatype body =
    Msg string
  | TaskView task_view
  | TaskViews "task_view list"
  | TaskObject task_obj
  | Results "result_row list"

text \<open>
  What a resource method does: it returns a body with a status, it returns a body alone
  (as \<^verbatim>\<open>Task.post\<close> does on success, with the dump of the object it has saved), or an
  exception leaves it. A list has neither \<^verbatim>\<open>delete\<close> nor \<^verbatim>\<open>results\<close>: asking it for one
  raises \<^verbatim>\<open>AttributeError\<close>.
\<close>

datatype response = Reply body http_status | ReplyBare body | Raised exn

text \<open>
  Modelled from the spec: the schemas \<^verbatim>\<open>TaskSchema\<close> and \<^verbatim>\<open>TaskIncludedSchema\<close> of
  \<^verbatim>\<open>_schema\<close>, which is not in the sources. The view of a task embeds its results under
  \<^verbatim>\<open>TaskIncludedSchema\<close> and leaves them out under \<^verbatim>\<open>TaskSchema\<close>. \<^verbatim>\<open>dump\<close> with
  \<^verbatim>\<open>many=False\<close> gives the view of one task, and with \<^verbatim>\<open>many=True\<close> the views of a list
  of tasks; a single task is not iterable, so \<^verbatim>\<open>many=True\<close> on it raises. The resources
  ask for no other combination (a lookup that is \<^verbatim>\<open>None\<close> or empty is answered before
  the dump, and a listing is dumped with \<^verbatim>\<open>many=True\<close>); the model raises for them too.
\<close>

definition view :: "bool \<Rightarrow> store \<Rightarrow> task_row \<Rightarrow> task_view" where
  "view incl st t =
     \<lparr>v_task = t, v_results = (if incl then Some (db_Task_results st (t_id t)) else None)\<rparr>"

fun schema_dump :: "bool \<Rightarrow> store \<Rightarrow> lookup \<Rightarrow> bool \<Rightarrow> exn + body" where
  "schema_dump incl st (Found t) False = Inr (TaskView (view incl st t))"
| "schema_dump incl st (Listing ts) True = Inr (TaskViews (map (view incl st) ts))"
| "schema_dump incl st (Found t) True = Inl TypeError"
| "schema_dump incl st (Listing ts) False = Inl TypeError"
| "schema_dump incl st NoTask many = Inl TypeError"

text \<open>Python's \<^verbatim>\<open>not id\<close> on the id of the route: true of \<^verbatim>\<open>None\<close> and of \<^verbatim>\<open>0\<close>.\<close>

definition not_id :: "int option \<Rightarrow> bool" where
  "not_id ident = (case ident of None \<Rightarrow> True | Some i \<Rightarrow> i = 0)"

text \<open>
  \<^verbatim>\<open>Task.get(id=None)\<close>, with the \<^verbatim>\<open>include\<close> argument of the query string. The message
  of the failure is the literal of the source, which is not formatted. Every resource
  method is given the store and returns the response with the store it leaves.
\<close>

definition Task_get :: "string option \<Rightarrow> store \<Rightarrow> int option \<Rightarrow> response \<times> store" where
  "Task_get include_arg st ident =
     (let task = db_Task_get st ident in
      if falsy task then (Reply (Msg ''task id={} is not found'') NOT_FOUND, st)
      else case schema_dump (include_arg = Some ''results'') st task (not_id ident) of
             Inl e \<Rightarrow> (Raised e, st)
           | Inr b \<Rightarrow> (Reply b OK, st))"

text \<open>The event that \<^verbatim>\<open>socketio.emit\<close> sends.\<close>

record notification =
  n_event :: string
  n_payload :: "int option"
  n_room :: string
  n_namespace :: string

definition missing_field_msg :: string where
  "missing_field_msg = ''JSON should contain '' @ [quote_char] @ ''collaboration_id'' @ [quote_char]"

text \<open>
  The task object that \<^verbatim>\<open>Task.post\<close> builds from the body for a collaboration: the
  fields that the body does not give are the empty string, an input that is not a
  \<^verbatim>\<open>str\<close> is replaced by its JSON text, and the status is \<^verbatim>\<open>open\<close>.
\<close>

definition new_task :: "payload \<Rightarrow> collaboration \<Rightarrow> task_obj" where
  "new_task data collaboration =
     (let input0 = py_get_default data ''input'' (JStr []);
          input1 = (case input0 of JStr s \<Rightarrow> s | _ \<Rightarrow> json_dumps input0)
      in \<lparr>o_id = None, o_collaboration = collaboration,
          o_name = py_get_default data ''name'' (JStr []),
          o_description = py_get_default data ''description'' (JStr []),
          o_image = py_get_default data ''image'' (JStr []),
          o_input = input1, o_status = ''open'', o_pending = []\<rparr>)"

text \<open>The loop of \<^verbatim>\<open>Task.post\<close>: one \<^verbatim>\<open>db.TaskResult(task=task, node=c)\<close> per node.\<close>

fun assign_nodes :: "task_obj \<Rightarrow> int list \<Rightarrow> task_obj" where
  "assign_nodes task [] = task"
| "assign_nodes task (c # cs) = assign_nodes (task\<lparr>o_pending := o_pending task @ [c]\<rparr>) cs"

text \<open>
  \<^verbatim>\<open>Task.post()\<close>. \<^verbatim>\<open>resolve\<close> is \<^verbatim>\<open>db.Collaboration.get\<close>, the directory of
  collaborations; \<^verbatim>\<open>ok1\<close> and \<^verbatim>\<open>ok2\<close> say whether the first and the second
  \<^verbatim>\<open>task.save()\<close> go through. The result is the response, the store and the events
  sent. The calls of the logger leave no trace in any of these and are left out.
\<close>

definition Task_post ::
  "(json \<Rightarrow> collaboration option) \<Rightarrow> bool \<Rightarrow> bool \<Rightarrow> payload \<Rightarrow> store
     \<Rightarrow> response \<times> store \<times> notification list" where
  "Task_post resolve ok1 ok2 data st =
     (let collaboration_id = py_get data ''collaboration_id'' in
      if \<not> truthy collaboration_id then
        (Reply (Msg missing_field_msg) BAD_REQUEST, st, [])
      else case resolve collaboration_id of
        None \<Rightarrow>
          (Reply (Msg (''collaboration id='' @ py_str collaboration_id @ '' not found'')) NOT_FOUND,
           st, [])
      | Some collaboration \<Rightarrow>
          (let task = new_task data collaboration
           in case db_Task_save ok1 task st of
                Inl e \<Rightarrow> (Raised e, st, [])
              | Inr (task1, st1) \<Rightarrow>
                  (let task2 = assign_nodes task1 (c_nodes collaboration)
                   in case db_Task_save ok2 task2 st1 of
                        Inl e \<Rightarrow> (Raised e, st1, [])
                      | Inr (task3, st2) \<Rightarrow>
                          (ReplyBare (TaskObject task3), st2,
                           [\<lparr>n_event = ''new_task'', n_payload = o_id task3,
                             n_room = ''collaboration_'' @ str_int (c_id (o_collaboration task3)),
                             n_namespace = ''/tasks''\<rparr>]))))"

text \<open>\<^verbatim>\<open>Task.delete(id)\<close>; \<^verbatim>\<open>ok\<close> says whether \<^verbatim>\<open>task.delete()\<close> goes through.\<close>

definition Task_delete :: "bool \<Rightarrow> store \<Rightarrow> int \<Rightarrow> response \<times> store" where
  "Task_delete ok st i =
     (let task = db_Task_get st (Some i) in
      if falsy task then
        (Reply (Msg (''task id='' @ str_int i @ '' not found'')) NOT_FOUND, st)
      else case task of
        Found t \<Rightarrow>
          (case db_Task_delete ok t st of
             Inl e \<Rightarrow> (Raised e, st)
           | Inr st' \<Rightarrow>
               (Reply (Msg (''task id='' @ str_int i @ '' successfully deleted'')) OK, st'))
      | _ \<Rightarrow> (Raised AttributeError, st))"

text \<open>\<^verbatim>\<open>TaskResult.get(id)\<close>.\<close>

definition TaskResult_get :: "store \<Rightarrow> int \<Rightarrow> response \<times> store" where
  "TaskResult_get st i =
     (let task = db_Task_get st (Some i) in
      if falsy task then
        (Reply (Msg (''task id='' @ str_int i @ '' not found'')) NOT_FOUND, st)
      else case task of
        Found t \<Rightarrow> (Reply (Results (db_Task_results st (t_id t))) OK, st)
      | _ \<Rightarrow> (Raised AttributeError, st))"

section \<open>What the theorems speak of\<close>

text \<open>The status of a response, when it has one.\<close>

fun status_of :: "response \<Rightarrow> http_status option" where
  "status_of (Reply b s) = Some s"
| "status_of (ReplyBare b) = None"
| "status_of (Raised e) = None"

text \<open>
  The invariant of the store: the counter of the task ids is positive and lies above the
  id of every task and above every task id that a result refers to, so that the id
  given to a new task is in use nowhere.
\<close>

definition store_ok :: "store \<Rightarrow> bool" where
  "store_ok st =
     (1 \<le> next_task_id st
      \<and> (\<forall>t \<in> set (tasks st). t_id t < next_task_id st)
      \<and> (\<forall>r \<in> set (results st). r_task_id r < next_task_id st))"

text \<open>No two results of the store are for the same task and the same node.\<close>

definition unique_pairs :: "store \<Rightarrow> bool" where
  "unique_pairs st = distinct (map (\<lambda>r. (r_task_id r, r_node_id r)) (results st))"

text \<open>The rows that the results of one save become: ids counted up from \<^verbatim>\<open>rid\<close>.\<close>

fun new_rows :: "int \<Rightarrow> int \<Rightarrow> int list \<Rightarrow> result_row list" where
  "new_rows tid rid [] = []"
| "new_rows tid rid (n # ns) =
     \<lparr>r_id = rid, r_task_id = tid, r_node_id = n\<rparr> # new_rows tid (rid + 1) ns"

text \<open>
  For the reading of JSON text: what may follow a value in the text that
  \<^verbatim>\<open>json_dumps\<close> writes, the bound that reading a value back needs, and the characters a
  value can start with.
\<close>

definition terminated :: "string \<Rightarrow> bool" where
  "terminated r = (case r of [] \<Rightarrow> True | c # _ \<Rightarrow> c = CHR '','' \<or> c = CHR '']'' \<or> c = CHR ''}'')"



text \<open>Directories and stores of the examples.\<close>

definition no_collaborations :: "json \<Rightarrow> collaboration option" where
  "no_collaborations v = None"

definition one_collaboration :: "int list \<Rightarrow> json \<Rightarrow> collaboration option" where
  "one_collaboration ns v =
     (if v = JInt 1 then Some \<lparr>c_id = 1, c_name = ''c'', c_nodes = ns\<rparr> else None)"

definition example_task :: task_row where
  "example_task =
     \<lparr>t_id = 1, t_collaboration_id = 1, t_name = JStr ''x'', t_description = JStr [],
      t_image = JStr [], t_input = [], t_status = ''open''\<rparr>"

definition store_without_results :: store where
  "store_without_results =
     \<lparr>tasks = [example_task], results = [], next_task_id = 2, next_result_id = 1\<rparr>"

definition store_with_result :: store where
  "store_with_result =
     \<lparr>tasks = [example_task], results = [\<lparr>r_id = 1, r_task_id = 1, r_node_id = 5\<rparr>],
      next_task_id = 2, next_result_id = 2\<rparr>"

text \<open>
  The store after the first save of a creation, which has written the task alone, and
  after the second, which has written its results.
\<close>

definition after_first :: "payload \<Rightarrow> collaboration \<Rightarrow> store \<Rightarrow> store" where
  "after_first data c st =
     st\<lparr>tasks := tasks st @ [row_of (next_task_id st) (new_task data c)],
        next_task_id := next_task_id st + 1\<rparr>"

definition created :: "payload \<Rightarrow> collaboration \<Rightarrow> store \<Rightarrow> store" where
  "created data c st =
     \<lparr>tasks = tasks st @ [row_of (next_task_id st) (new_task data c)],
      results = results st @ new_rows (next_task_id st) (next_result_id st) (c_nodes c),
      next_task_id = next_task_id st + 1,
      next_result_id = next_result_id st + int (length (c_nodes c))\<rparr>"

section \<open>The store under a save\<close>

lemma insert_results_tasks [simp]: "tasks (insert_results tid ns st) = tasks st"
  by (induction ns arbitrary: st) auto

lemma insert_results_next_task_id [simp]:
  "next_task_id (insert_results tid ns st) = next_task_id st"
  by (induction ns arbitrary: st) auto

lemma insert_results_results:
  "results (insert_results tid ns st) = results st @ new_rows tid (next_result_id st) ns"
  by (induction ns arbitrary: st) auto

lemma insert_results_next_result_id:
  "next_result_id (insert_results tid ns st) = next_result_id st + int (length ns)"
  by (induction ns arbitrary: st) auto

lemma assign_nodes_pending: "assign_nodes task ns = task\<lparr>o_pending := o_pending task @ ns\<rparr>"
  by (induction ns arbitrary: task) auto

lemma new_rows_nodes [simp]: "map r_node_id (new_rows tid rid ns) = ns"
  by (induction ns arbitrary: rid) auto

lemma new_rows_task: "r \<in> set (new_rows tid rid ns) \<Longrightarrow> r_task_id r = tid"
  by (induction ns arbitrary: rid) auto

lemma new_rows_length [simp]: "length (new_rows tid rid ns) = length ns"
  by (induction ns arbitrary: rid) auto

lemma filter_new_rows_same [simp]:
  "filter (\<lambda>r. r_task_id r = tid) (new_rows tid rid ns) = new_rows tid rid ns"
  by (induction ns arbitrary: rid) auto

lemma filter_new_rows_other [simp]:
  "i \<noteq> tid \<Longrightarrow> filter (\<lambda>r. r_task_id r = i) (new_rows tid rid ns) = []"
  by (induction ns arbitrary: rid) auto

lemma new_rows_pairs:
  "map (\<lambda>r. (r_task_id r, r_node_id r)) (new_rows tid rid ns) = map (Pair tid) ns"
  by (induction ns arbitrary: rid) auto

lemma row_of_update [simp]:
  "row_of i (obj\<lparr>o_id := x\<rparr>) = row_of i obj"
  "row_of i (obj\<lparr>o_pending := p\<rparr>) = row_of i obj"
  by (simp_all add: row_of_def)

lemma t_id_row_of [simp]: "t_id (row_of i obj) = i"
  by (simp add: row_of_def)

lemma save_fails [simp]: "db_Task_save False obj st = Inl PersistenceFailure"
  by (simp add: db_Task_save_def)

lemma save_new:
  "o_id obj = None \<Longrightarrow> db_Task_save True obj st =
     Inr (obj\<lparr>o_id := Some (next_task_id st), o_pending := []\<rparr>,
          insert_results (next_task_id st) (o_pending obj)
            (st\<lparr>tasks := tasks st @ [row_of (next_task_id st) obj],
                next_task_id := next_task_id st + 1\<rparr>))"
  by (simp add: db_Task_save_def Let_def)

lemma save_again:
  "o_id obj = Some i \<Longrightarrow> db_Task_save True obj st =
     Inr (obj\<lparr>o_pending := []\<rparr>,
          insert_results i (o_pending obj)
            (st\<lparr>tasks := map (\<lambda>t. if t_id t = i then row_of i obj else t) (tasks st)\<rparr>))"
  by (simp add: db_Task_save_def Let_def)

lemma map_replace_fresh:
  "\<forall>t \<in> set ts. t_id t \<noteq> i \<Longrightarrow> map (\<lambda>t. if t_id t = i then r else t) ts = ts"
  by (induction ts) auto

section \<open>The paths of a creation\<close>

lemma py_get_Some [simp]: "data k = Some v \<Longrightarrow> py_get data k = v"
  by (simp add: py_get_def)

lemma py_get_None [simp]: "data k = None \<Longrightarrow> py_get data k = JNull"
  by (simp add: py_get_def)

lemma new_task_id [simp]: "o_id (new_task data c) = None"
  by (simp add: new_task_def Let_def)

lemma new_task_pending [simp]: "o_pending (new_task data c) = []"
  by (simp add: new_task_def Let_def)

lemma new_task_collaboration [simp]: "o_collaboration (new_task data c) = c"
  by (simp add: new_task_def Let_def)

lemma post_missing:
  "\<not> truthy (py_get data ''collaboration_id'') \<Longrightarrow>
   Task_post resolve ok1 ok2 data st = (Reply (Msg missing_field_msg) BAD_REQUEST, st, [])"
  by (simp add: Task_post_def)

lemma post_unresolved:
  "truthy (py_get data ''collaboration_id'') \<Longrightarrow>
   resolve (py_get data ''collaboration_id'') = None \<Longrightarrow>
   Task_post resolve ok1 ok2 data st =
     (Reply (Msg (''collaboration id='' @ py_str (py_get data ''collaboration_id'') @ '' not found''))
        NOT_FOUND, st, [])"
  by (simp add: Task_post_def)

lemma post_first_fails:
  "truthy (py_get data ''collaboration_id'') \<Longrightarrow>
   resolve (py_get data ''collaboration_id'') = Some c \<Longrightarrow>
   Task_post resolve False ok2 data st = (Raised PersistenceFailure, st, [])"
  by (simp add: Task_post_def)

lemma post_second_fails:
  "truthy (py_get data ''collaboration_id'') \<Longrightarrow>
   resolve (py_get data ''collaboration_id'') = Some c \<Longrightarrow>
   Task_post resolve True False data st = (Raised PersistenceFailure, after_first data c st, [])"
  by (simp add: Task_post_def save_new after_first_def)

lemma post_ok_response:
  assumes "truthy (py_get data ''collaboration_id'')"
    and "resolve (py_get data ''collaboration_id'') = Some c"
  shows "fst (Task_post resolve True True data st) =
           ReplyBare (TaskObject ((new_task data c)\<lparr>o_id := Some (next_task_id st)\<rparr>))"
    and "snd (snd (Task_post resolve True True data st)) =
           [\<lparr>n_event = ''new_task'', n_payload = Some (next_task_id st),
             n_room = ''collaboration_'' @ str_int (c_id c), n_namespace = ''/tasks''\<rparr>]"
  using assms
  by (simp_all add: Task_post_def save_new save_again assign_nodes_pending)

lemma post_ok_store:
  assumes "truthy (py_get data ''collaboration_id'')"
    and "resolve (py_get data ''collaboration_id'') = Some c"
    and "store_ok st"
  shows "fst (snd (Task_post resolve True True data st)) = created data c st"
proof -
  have fresh: "\<forall>t \<in> set (tasks st). t_id t \<noteq> next_task_id st"
    using assms(3) by (auto simp: store_ok_def)
  show ?thesis
    using assms(1,2)
    by (simp add: Task_post_def save_new save_again assign_nodes_pending created_def
        map_replace_fresh [OF fresh] insert_results_results insert_results_next_result_id
        store.equality)
qed

section \<open>Validation of a creation\<close>

text \<open>
  Claim C10. A body whose \<^verbatim>\<open>collaboration_id\<close> is there but falsy (\<^verbatim>\<open>0\<close>, the empty
  string, \<^verbatim>\<open>null\<close>, \<^verbatim>\<open>false\<close>, an empty list or object) is answered as one without the
  field: the response is the \<^verbatim>\<open>BAD_REQUEST\<close> of the missing field, nothing is stored
  and nothing is sent. The directory of collaborations is not consulted: the outcome is
  that of the body without the field under any other directory, whatever the saves
  would have done.
\<close>

theorem falsy_collaboration_id_as_absent:
  assumes "data ''collaboration_id'' = Some v" and "\<not> truthy v"
  shows "Task_post resolve ok1 ok2 data st = (Reply (Msg missing_field_msg) BAD_REQUEST, st, [])
       \<and> Task_post resolve ok1 ok2 data st =
           Task_post resolve' ok1' ok2' (data(''collaboration_id'' := None)) st"
  using assms by (simp add: post_missing)

theorem falsy_collaboration_id_as_absent_witness:
  "Task_post (one_collaboration [5]) True True [''collaboration_id'' \<mapsto> JInt 0] empty_store =
     (Reply (Msg missing_field_msg) BAD_REQUEST, empty_store, [])
   \<and> Task_post (one_collaboration [5]) True True [''collaboration_id'' \<mapsto> JInt 0] empty_store =
       Task_post no_collaborations False False Map.empty empty_store"
  using falsy_collaboration_id_as_absent [of "[''collaboration_id'' \<mapsto> JInt 0]" "JInt 0"
      "one_collaboration [5]" True True empty_store no_collaborations False False]
  by auto

text \<open>
  Claim C5, as amended. A creation fails with the \<^verbatim>\<open>BAD_REQUEST\<close> of the missing field
  when the body has no \<^verbatim>\<open>collaboration_id\<close> or has a falsy one, and with \<^verbatim>\<open>NOT_FOUND\<close>
  when its \<^verbatim>\<open>collaboration_id\<close> is truthy and the directory does not resolve it. Both
  checks come before any write: in each case the store is the one given and no event
  is sent.
\<close>

theorem post_validation:
  "(data ''collaboration_id'' = None \<longrightarrow>
      Task_post resolve ok1 ok2 data st = (Reply (Msg missing_field_msg) BAD_REQUEST, st, []))
   \<and> (\<forall>v. data ''collaboration_id'' = Some v \<and> \<not> truthy v \<longrightarrow>
      Task_post resolve ok1 ok2 data st = (Reply (Msg missing_field_msg) BAD_REQUEST, st, []))
   \<and> (\<forall>v. data ''collaboration_id'' = Some v \<and> truthy v \<and> resolve v = None \<longrightarrow>
      Task_post resolve ok1 ok2 data st =
        (Reply (Msg (''collaboration id='' @ py_str v @ '' not found'')) NOT_FOUND, st, []))"
  by (auto simp: post_missing post_unresolved)

theorem post_validation_witness:
  "Task_post no_collaborations True True Map.empty empty_store =
     (Reply (Msg missing_field_msg) BAD_REQUEST, empty_store, [])
   \<and> Task_post no_collaborations True True [''collaboration_id'' \<mapsto> JStr []] empty_store =
     (Reply (Msg missing_field_msg) BAD_REQUEST, empty_store, [])
   \<and> Task_post no_collaborations True True [''collaboration_id'' \<mapsto> JInt 7] empty_store =
     (Reply (Msg ''collaboration id=7 not found'') NOT_FOUND, empty_store, [])"
proof -
  have seven: "py_str (JInt 7) = ''7''"
    by code_simp
  show ?thesis
    using post_validation [of Map.empty no_collaborations True True empty_store]
      post_validation [of "[''collaboration_id'' \<mapsto> JStr []]" no_collaborations True True empty_store]
      post_validation [of "[''collaboration_id'' \<mapsto> JInt 7]" no_collaborations True True empty_store]
    by (simp add: no_collaborations_def seven)
qed

text \<open>
  The claim as it was stated fails for an id that is given and falsy: with
  \<^verbatim>\<open>collaboration_id = 0\<close>, which no collaboration has, the response is the
  \<^verbatim>\<open>BAD_REQUEST\<close> of the missing field and not \<^verbatim>\<open>NOT_FOUND\<close>.
\<close>

theorem unresolved_zero_is_bad_request:
  "no_collaborations (JInt 0) = None
   \<and> status_of (fst (Task_post no_collaborations True True
        [''collaboration_id'' \<mapsto> JInt 0] empty_store)) = Some BAD_REQUEST
   \<and> status_of (fst (Task_post no_collaborations True True
        [''collaboration_id'' \<mapsto> JInt 0] empty_store)) \<noteq> Some NOT_FOUND"
  by (simp add: no_collaborations_def Task_post_def py_get_def)

section \<open>Outcomes of a creation\<close>

lemma post_success_inversion:
  assumes "fst (Task_post resolve ok1 ok2 data st) = ReplyBare b"
  shows "ok1 \<and> ok2 \<and> truthy (py_get data ''collaboration_id'')
         \<and> (\<exists>c. resolve (py_get data ''collaboration_id'') = Some c)"
proof -
  have t: "truthy (py_get data ''collaboration_id'')"
    using assms by (cases "truthy (py_get data ''collaboration_id'')") (simp_all add: post_missing)
  obtain c where c: "resolve (py_get data ''collaboration_id'') = Some c"
    using assms t by (cases "resolve (py_get data ''collaboration_id'')") (simp_all add: post_unresolved)
  have o1: ok1
    using assms post_first_fails [where resolve = resolve and data = data, OF t c] by (cases ok1) simp_all
  have o2: ok2
    using assms o1 post_second_fails [where resolve = resolve and data = data, OF t c] by (cases ok2) simp_all
  show ?thesis using t c o1 o2 by blast
qed

lemma post_no_success_no_event:
  assumes "\<forall>b. fst (Task_post resolve ok1 ok2 data st) \<noteq> ReplyBare b"
  shows "snd (snd (Task_post resolve ok1 ok2 data st)) = []"
proof (cases "truthy (py_get data ''collaboration_id'')")
  case False
  then show ?thesis by (simp add: post_missing)
next
  case t: True
  show ?thesis
  proof (cases "resolve (py_get data ''collaboration_id'')")
    case None
    then show ?thesis using t by (simp add: post_unresolved)
  next
    case (Some c)
    show ?thesis
    proof (cases ok1)
      case False
      then show ?thesis using post_first_fails [where resolve = resolve and data = data, OF t Some] by simp
    next
      case o1: True
      show ?thesis
      proof (cases ok2)
        case False
        then show ?thesis using o1 post_second_fails [where resolve = resolve and data = data, OF t Some] by simp
      next
        case True
        then show ?thesis using assms o1 post_ok_response(1) [where resolve = resolve and data = data, OF t Some] by simp
      qed
    qed
  qed
qed

lemma find_fresh_append:
  "\<forall>t \<in> set ts. t_id t \<noteq> i \<Longrightarrow> t_id r = i \<Longrightarrow> find (\<lambda>t. t_id t = i) (ts @ [r]) = Some r"
  by (induction ts) auto

lemma find_old_append:
  "t_id r \<noteq> i \<Longrightarrow> find (\<lambda>t. t_id t = i) (ts @ [r]) = find (\<lambda>t. t_id t = i) ts"
  by (induction ts) auto

lemma store_ok_fresh_task: "store_ok st \<Longrightarrow> \<forall>t \<in> set (tasks st). t_id t \<noteq> next_task_id st"
  by (auto simp: store_ok_def)

lemma store_ok_fresh_result:
  "store_ok st \<Longrightarrow> filter (\<lambda>r. r_task_id r = next_task_id st) (results st) = []"
  by (auto simp: store_ok_def filter_empty_conv)

lemma store_ok_empty: "store_ok empty_store"
  by (simp add: store_ok_def empty_store_def)

lemma store_ok_after_first: "store_ok st \<Longrightarrow> store_ok (after_first data c st)"
  by (auto simp: store_ok_def after_first_def)

lemma store_ok_created: "store_ok st \<Longrightarrow> store_ok (created data c st)"
  by (auto simp: store_ok_def created_def dest: new_rows_task)

lemma results_after_first:
  "store_ok st \<Longrightarrow> db_Task_results (after_first data c st) (next_task_id st) = []"
  by (simp add: db_Task_results_def after_first_def store_ok_fresh_result)

lemma results_created:
  "store_ok st \<Longrightarrow> db_Task_results (created data c st) (next_task_id st) =
     new_rows (next_task_id st) (next_result_id st) (c_nodes c)"
  by (simp add: db_Task_results_def created_def store_ok_fresh_result)

lemma results_created_other:
  "i \<noteq> next_task_id st \<Longrightarrow> db_Task_results (created data c st) i = db_Task_results st i"
  by (simp add: db_Task_results_def created_def)

lemma get_after_first:
  assumes "store_ok st"
  shows "Task_get inc (after_first data c st) (Some (next_task_id st)) =
     (Reply (TaskView (view (inc = Some ''results'') (after_first data c st)
        (row_of (next_task_id st) (new_task data c)))) OK, after_first data c st)"
proof -
  have "next_task_id st \<noteq> 0" using assms by (simp add: store_ok_def)
  then show ?thesis
    using store_ok_fresh_task [OF assms]
    by (simp add: Task_get_def db_Task_get_def after_first_def find_fresh_append not_id_def)
qed

lemma get_created:
  assumes "store_ok st"
  shows "Task_get inc (created data c st) (Some (next_task_id st)) =
     (Reply (TaskView (view (inc = Some ''results'') (created data c st)
        (row_of (next_task_id st) (new_task data c)))) OK, created data c st)"
proof -
  have "next_task_id st \<noteq> 0" using assms by (simp add: store_ok_def)
  then show ?thesis
    using store_ok_fresh_task [OF assms]
    by (simp add: Task_get_def db_Task_get_def created_def find_fresh_append not_id_def)
qed

lemma get_unknown:
  assumes "store_ok st"
  shows "Task_get inc st (Some (next_task_id st)) =
     (Reply (Msg ''task id={} is not found'') NOT_FOUND, st)"
proof -
  have "find (\<lambda>t. t_id t = next_task_id st) (tasks st) = None"
    using store_ok_fresh_task [OF assms] by (simp add: find_None_iff)
  then show ?thesis by (simp add: Task_get_def db_Task_get_def)
qed


lemma post_store_cases:
  "fst (snd (Task_post resolve ok1 ok2 data st)) = st
   \<or> (\<exists>c. fst (snd (Task_post resolve ok1 ok2 data st)) = after_first data c st)
   \<or> (\<exists>c. ok1 \<and> ok2 \<and> truthy (py_get data ''collaboration_id'')
          \<and> resolve (py_get data ''collaboration_id'') = Some c)"
proof (cases "truthy (py_get data ''collaboration_id'')")
  case False
  then show ?thesis by (simp add: post_missing)
next
  case t: True
  show ?thesis
  proof (cases "resolve (py_get data ''collaboration_id'')")
    case None
    then show ?thesis using t by (simp add: post_unresolved)
  next
    case (Some c)
    show ?thesis
    proof (cases ok1)
      case False
      then show ?thesis
        using post_first_fails [where resolve = resolve and data = data, OF t Some] by simp
    next
      case o1: True
      show ?thesis
      proof (cases ok2)
        case False
        then show ?thesis
          using o1 post_second_fails [where resolve = resolve and data = data, OF t Some]
          by auto
      next
        case True
        then show ?thesis using o1 t Some by blast
      qed
    qed
  qed
qed

lemma results_after_first_any:
  "db_Task_results (after_first data c st) i = db_Task_results st i"
  by (simp add: db_Task_results_def after_first_def)

lemma post_keeps_results:
  assumes "store_ok st" and "i < next_task_id st"
  shows "db_Task_results (fst (snd (Task_post resolve ok1 ok2 data st))) i = db_Task_results st i"
proof -
  consider "fst (snd (Task_post resolve ok1 ok2 data st)) = st"
    | c where "fst (snd (Task_post resolve ok1 ok2 data st)) = after_first data c st"
    | c where "ok1" "ok2" "truthy (py_get data ''collaboration_id'')"
        "resolve (py_get data ''collaboration_id'') = Some c"
    using post_store_cases [of resolve ok1 ok2 data st] by blast
  then show ?thesis
  proof cases
    case 1
    then show ?thesis by simp
  next
    case 2
    then show ?thesis by (simp add: results_after_first_any)
  next
    case 3
    have "fst (snd (Task_post resolve True True data st)) = created data c st"
      using post_ok_store [where resolve = resolve and data = data, OF 3(3) 3(4) assms(1)] .
    then show ?thesis
      using 3(1,2) assms(2) by (simp add: results_created_other)
  qed
qed

lemma unique_pairs_created:
  assumes "store_ok st" and "unique_pairs st" and "distinct (c_nodes c)"
  shows "unique_pairs (created data c st)"
proof -
  have old: "\<forall>r \<in> set (results st). r_task_id r \<noteq> next_task_id st"
    using assms(1) by (auto simp: store_ok_def)
  have "distinct (map (Pair (next_task_id st)) (c_nodes c))"
    using assms(3) by (simp add: distinct_map inj_on_def)
  moreover have "set (map (\<lambda>r. (r_task_id r, r_node_id r)) (results st))
      \<inter> set (map (Pair (next_task_id st)) (c_nodes c)) = {}"
    using old by auto
  ultimately show ?thesis
    using assms(2) by (simp add: unique_pairs_def created_def new_rows_pairs)
qed

section \<open>Fan-out\<close>

text \<open>
  Claim C3. When \<^verbatim>\<open>Task.post\<close> succeeds on a store that satisfies the invariant, the
  results that refer to the new task are one per node of the collaboration as it was
  resolved for this request, in the order of its nodes, so their number is the number of
  the nodes. With no node listed twice, no two results of the store are for the same
  task and node, given that this held before. A later creation, under any directory and
  so under any later membership, leaves the results of the task as they are.
\<close>

theorem one_result_per_node:
  assumes "Task_post resolve ok1 ok2 data st = (ReplyBare b, st', notes)" and "store_ok st"
  shows "\<exists>c. resolve (py_get data ''collaboration_id'') = Some c
      \<and> b = TaskObject ((new_task data c)\<lparr>o_id := Some (next_task_id st)\<rparr>)
      \<and> map r_node_id (db_Task_results st' (next_task_id st)) = c_nodes c
      \<and> length (db_Task_results st' (next_task_id st)) = length (c_nodes c)
      \<and> (unique_pairs st \<and> distinct (c_nodes c) \<longrightarrow> unique_pairs st')
      \<and> (\<forall>resolve' ok1' ok2' data'.
            db_Task_results (fst (snd (Task_post resolve' ok1' ok2' data' st'))) (next_task_id st)
              = db_Task_results st' (next_task_id st))"
proof -
  have fst_eq: "fst (Task_post resolve ok1 ok2 data st) = ReplyBare b"
    using assms(1) by simp
  from post_success_inversion [OF fst_eq]
  obtain c where ok: "ok1" "ok2" and t: "truthy (py_get data ''collaboration_id'')"
    and c: "resolve (py_get data ''collaboration_id'') = Some c"
    by blast
  have st': "st' = created data c st"
    using post_ok_store [where resolve = resolve and data = data, OF t c assms(2)] assms(1) ok
    by simp
  have b: "b = TaskObject ((new_task data c)\<lparr>o_id := Some (next_task_id st)\<rparr>)"
    using post_ok_response(1) [where resolve = resolve and data = data and st = st, OF t c]
      assms(1) ok by simp
  have rows: "db_Task_results st' (next_task_id st) =
      new_rows (next_task_id st) (next_result_id st) (c_nodes c)"
    using st' results_created [OF assms(2)] by simp
  have later: "\<forall>resolve' ok1' ok2' data'.
      db_Task_results (fst (snd (Task_post resolve' ok1' ok2' data' st'))) (next_task_id st)
        = db_Task_results st' (next_task_id st)"
  proof (intro allI)
    fix resolve' ok1' ok2' data'
    have "store_ok st'" using st' store_ok_created [OF assms(2)] by simp
    moreover have "next_task_id st < next_task_id st'" using st' by (simp add: created_def)
    ultimately show "db_Task_results (fst (snd (Task_post resolve' ok1' ok2' data' st')))
        (next_task_id st) = db_Task_results st' (next_task_id st)"
      by (rule post_keeps_results)
  qed
  have uniq: "unique_pairs st \<and> distinct (c_nodes c) \<longrightarrow> unique_pairs st'"
    using st' unique_pairs_created [OF assms(2)] by simp
  show ?thesis
    using c b rows later uniq by (intro exI [of _ c]) simp
qed


lemma one_collaboration_resolves:
  "one_collaboration ns (py_get [''collaboration_id'' \<mapsto> JInt 1] ''collaboration_id'') =
     Some \<lparr>c_id = 1, c_name = ''c'', c_nodes = ns\<rparr>"
  "truthy (py_get [''collaboration_id'' \<mapsto> JInt 1] ''collaboration_id'')"
  by (simp_all add: one_collaboration_def)

theorem one_result_per_node_witness:
  "store_ok empty_store
   \<and> map r_node_id (db_Task_results (fst (snd (Task_post (one_collaboration [5, 7]) True True
        [''collaboration_id'' \<mapsto> JInt 1] empty_store))) 1) = [5, 7]
   \<and> unique_pairs (fst (snd (Task_post (one_collaboration [5, 7]) True True
        [''collaboration_id'' \<mapsto> JInt 1] empty_store)))"
proof -
  let ?R = "one_collaboration [5, 7]"
  let ?D = "[''collaboration_id'' \<mapsto> JInt 1] :: payload"
  let ?P = "Task_post ?R True True ?D empty_store"
  have "fst ?P = ReplyBare (TaskObject ((new_task ?D \<lparr>c_id = 1, c_name = ''c'', c_nodes = [5, 7]\<rparr>)
      \<lparr>o_id := Some (next_task_id empty_store)\<rparr>))"
    by (rule post_ok_response(1)) (rule one_collaboration_resolves)+
  then have eq: "?P = (ReplyBare (TaskObject ((new_task ?D \<lparr>c_id = 1, c_name = ''c'', c_nodes = [5, 7]\<rparr>)
      \<lparr>o_id := Some (next_task_id empty_store)\<rparr>)), fst (snd ?P), snd (snd ?P))"
    by (metis prod.collapse)
  have u: "unique_pairs empty_store"
    by (simp add: unique_pairs_def empty_store_def)
  have n: "next_task_id empty_store = 1"
    by (simp add: empty_store_def)
  from one_result_per_node [OF eq store_ok_empty]
  obtain c where c: "?R (py_get ?D ''collaboration_id'') = Some c"
    and rows: "map r_node_id (db_Task_results (fst (snd ?P)) (next_task_id empty_store)) = c_nodes c"
    and uniq: "unique_pairs empty_store \<and> distinct (c_nodes c) \<longrightarrow> unique_pairs (fst (snd ?P))"
    by blast
  have "c_nodes c = [5, 7]"
    using c by (auto simp: one_collaboration_def)
  then show ?thesis
    using rows uniq u n store_ok_empty by simp
qed

section \<open>Persistence of a creation\<close>

text \<open>
  Claim C1, as amended. \<^verbatim>\<open>Task.post\<close> persists a creation in two saves, each of them
  all or nothing: the first writes the task, the second its results. When the first
  save fails nothing is stored, and a lookup of the id the task would have had is not
  found. When the second save fails the task stays stored with no result, a lookup of
  its id returns it, and no event is sent. When both saves go through the task is
  stored with one result per node of the collaboration.
\<close>

theorem creation_in_two_saves:
  assumes "truthy (py_get data ''collaboration_id'')"
    and "resolve (py_get data ''collaboration_id'') = Some c"
    and "store_ok st"
  shows "Task_post resolve False ok2 data st = (Raised PersistenceFailure, st, [])
     \<and> fst (Task_get inc st (Some (next_task_id st))) =
         Reply (Msg ''task id={} is not found'') NOT_FOUND
     \<and> Task_post resolve True False data st =
         (Raised PersistenceFailure, after_first data c st, [])
     \<and> fst (Task_get inc (after_first data c st) (Some (next_task_id st))) =
         Reply (TaskView (view (inc = Some ''results'') (after_first data c st)
           (row_of (next_task_id st) (new_task data c)))) OK
     \<and> db_Task_results (after_first data c st) (next_task_id st) = []
     \<and> results (after_first data c st) = results st
     \<and> fst (snd (Task_post resolve True True data st)) = created data c st
     \<and> fst (Task_get inc (created data c st) (Some (next_task_id st))) =
         Reply (TaskView (view (inc = Some ''results'') (created data c st)
           (row_of (next_task_id st) (new_task data c)))) OK
     \<and> map r_node_id (db_Task_results (created data c st) (next_task_id st)) = c_nodes c"
proof -
  note t = assms(1) and c = assms(2) and ok = assms(3)
  have "Task_post resolve False ok2 data st = (Raised PersistenceFailure, st, [])"
    using t c by (rule post_first_fails)
  moreover have "Task_post resolve True False data st =
      (Raised PersistenceFailure, after_first data c st, [])"
    using t c by (rule post_second_fails)
  moreover have "fst (snd (Task_post resolve True True data st)) = created data c st"
    using t c ok by (rule post_ok_store)
  moreover have "results (after_first data c st) = results st"
    by (simp add: after_first_def)
  ultimately show ?thesis
    by (simp add: get_unknown [OF ok] get_after_first [OF ok] get_created [OF ok]
        results_after_first [OF ok] results_created [OF ok])
qed

theorem creation_in_two_saves_witness:
  "Task_post (one_collaboration [5, 7]) True False [''collaboration_id'' \<mapsto> JInt 1] empty_store =
     (Raised PersistenceFailure,
      after_first [''collaboration_id'' \<mapsto> JInt 1] \<lparr>c_id = 1, c_name = ''c'', c_nodes = [5, 7]\<rparr>
        empty_store, [])
   \<and> db_Task_results (after_first [''collaboration_id'' \<mapsto> JInt 1]
        \<lparr>c_id = 1, c_name = ''c'', c_nodes = [5, 7]\<rparr> empty_store) 1 = []
   \<and> map r_node_id (db_Task_results (fst (snd (Task_post (one_collaboration [5, 7]) True True
        [''collaboration_id'' \<mapsto> JInt 1] empty_store))) 1) = [5, 7]"
proof -
  have n: "next_task_id empty_store = 1"
    by (simp add: empty_store_def)
  show ?thesis
    using creation_in_two_saves [where resolve = "one_collaboration [5, 7]"
        and data = "[''collaboration_id'' \<mapsto> JInt 1]" and st = empty_store,
        OF one_collaboration_resolves(2) one_collaboration_resolves(1) store_ok_empty]
    by (simp add: n)
qed

text \<open>
  The claim as it was stated fails: for a collaboration of two nodes, a creation whose
  second save fails leaves a task that a lookup returns, with no result at all.
\<close>

theorem task_visible_without_results:
  "fst (Task_post (one_collaboration [5, 7]) True False
      [''collaboration_id'' \<mapsto> JInt 1] empty_store) = Raised PersistenceFailure
   \<and> status_of (fst (Task_get None (fst (snd (Task_post (one_collaboration [5, 7]) True False
        [''collaboration_id'' \<mapsto> JInt 1] empty_store))) (Some 1))) = Some OK
   \<and> db_Task_results (fst (snd (Task_post (one_collaboration [5, 7]) True False
        [''collaboration_id'' \<mapsto> JInt 1] empty_store))) 1 = []"
  by code_simp


section \<open>Results of a task\<close>

lemma find_task_None: "(find (\<lambda>t. t_id t = i) ts = None) = (\<forall>t \<in> set ts. t_id t \<noteq> i)"
  by (induction ts) auto

lemma find_task_Some: "find (\<lambda>t. t_id t = i) ts = Some t \<Longrightarrow> t_id t = i \<and> t \<in> set ts"
  by (induction ts) (auto split: if_splits)

lemma results_unknown:
  "\<forall>t \<in> set (tasks st). t_id t \<noteq> i \<Longrightarrow>
   TaskResult_get st i = (Reply (Msg (''task id='' @ str_int i @ '' not found'')) NOT_FOUND, st)"
proof -
  assume "\<forall>t \<in> set (tasks st). t_id t \<noteq> i"
  then have "find (\<lambda>t. t_id t = i) (tasks st) = None"
    by (simp only: find_task_None)
  then show ?thesis
    by (simp add: TaskResult_get_def db_Task_get_def)
qed

lemma results_known:
  assumes "\<exists>t \<in> set (tasks st). t_id t = i"
  shows "TaskResult_get st i = (Reply (Results (db_Task_results st i)) OK, st)"
proof -
  obtain t where t: "find (\<lambda>t. t_id t = i) (tasks st) = Some t"
    using assms by (cases "find (\<lambda>t. t_id t = i) (tasks st)") (auto simp: find_task_None)
  from find_task_Some [OF t] have "t_id t = i" by blast
  then show ?thesis using t by (simp add: TaskResult_get_def db_Task_get_def)
qed

text \<open>
  Claim C8. \<^verbatim>\<open>TaskResult.get\<close> answers \<^verbatim>\<open>NOT_FOUND\<close> exactly when the store has no task of
  the id; otherwise it answers \<^verbatim>\<open>OK\<close> with the results that refer to the task, which may
  be none. In both cases the store it leaves is the store it was given.
\<close>

theorem results_of_task:
  "(status_of (fst (TaskResult_get st i)) = Some NOT_FOUND
      \<longleftrightarrow> (\<forall>t \<in> set (tasks st). t_id t \<noteq> i))
   \<and> ((\<forall>t \<in> set (tasks st). t_id t \<noteq> i) \<longrightarrow>
        fst (TaskResult_get st i) =
          Reply (Msg (''task id='' @ str_int i @ '' not found'')) NOT_FOUND)
   \<and> ((\<exists>t \<in> set (tasks st). t_id t = i) \<longrightarrow>
        fst (TaskResult_get st i) =
          Reply (Results (filter (\<lambda>r. r_task_id r = i) (results st))) OK)
   \<and> snd (TaskResult_get st i) = st"
proof (cases "\<exists>t \<in> set (tasks st). t_id t = i")
  case True
  have eq: "TaskResult_get st i =
      (Reply (Results (filter (\<lambda>r. r_task_id r = i) (results st))) OK, st)"
    using results_known [OF True] by (simp only: db_Task_results_def)
  have "status_of (fst (TaskResult_get st i)) = Some OK"
    by (simp only: eq fst_conv status_of.simps)
  then have "status_of (fst (TaskResult_get st i)) \<noteq> Some NOT_FOUND"
    by simp
  moreover have "\<not> (\<forall>t \<in> set (tasks st). t_id t \<noteq> i)"
    using True by blast
  moreover have "fst (TaskResult_get st i) =
      Reply (Results (filter (\<lambda>r. r_task_id r = i) (results st))) OK"
    by (simp only: eq fst_conv)
  moreover have "snd (TaskResult_get st i) = st"
    by (simp only: eq snd_conv)
  ultimately show ?thesis by blast
next
  case False
  then have none: "\<forall>t \<in> set (tasks st). t_id t \<noteq> i" by blast
  have eq: "TaskResult_get st i =
      (Reply (Msg (''task id='' @ str_int i @ '' not found'')) NOT_FOUND, st)"
    using none by (rule results_unknown)
  have "status_of (fst (TaskResult_get st i)) = Some NOT_FOUND"
    by (simp only: eq fst_conv status_of.simps)
  moreover have "fst (TaskResult_get st i) =
      Reply (Msg (''task id='' @ str_int i @ '' not found'')) NOT_FOUND"
    by (simp only: eq fst_conv)
  moreover have "snd (TaskResult_get st i) = st"
    by (simp only: eq snd_conv)
  ultimately show ?thesis using none False by blast
qed

theorem results_of_task_witness:
  "TaskResult_get store_without_results 1 = (Reply (Results []) OK, store_without_results)
   \<and> TaskResult_get store_with_result 1 =
       (Reply (Results [\<lparr>r_id = 1, r_task_id = 1, r_node_id = 5\<rparr>]) OK, store_with_result)
   \<and> TaskResult_get store_with_result 2 =
       (Reply (Msg ''task id=2 not found'') NOT_FOUND, store_with_result)"
proof -
  have two: "str_int 2 = ''2''"
    by code_simp
  have a: "\<exists>t \<in> set (tasks store_without_results). t_id t = 1"
    by (simp add: store_without_results_def example_task_def)
  have b: "\<exists>t \<in> set (tasks store_with_result). t_id t = 1"
    by (simp add: store_with_result_def example_task_def)
  have c: "\<forall>t \<in> set (tasks store_with_result). t_id t \<noteq> 2"
    by (simp add: store_with_result_def example_task_def)
  have ra: "filter (\<lambda>r. r_task_id r = 1) (results store_without_results) = []"
    by (simp add: store_without_results_def)
  have rb: "filter (\<lambda>r. r_task_id r = 1) (results store_with_result) =
      [\<lparr>r_id = 1, r_task_id = 1, r_node_id = 5\<rparr>]"
    by (simp add: store_with_result_def)
  note w1 = results_of_task [of store_without_results 1]
  note w2 = results_of_task [of store_with_result 1]
  note w3 = results_of_task [of store_with_result 2]
  have 1: "TaskResult_get store_without_results 1 = (Reply (Results []) OK, store_without_results)"
  proof (rule prod_eqI)
    show "fst (TaskResult_get store_without_results 1) = fst (Reply (Results []) OK, store_without_results)"
      using w1 a ra by simp
    show "snd (TaskResult_get store_without_results 1) = snd (Reply (Results []) OK, store_without_results)"
      using w1 by simp
  qed
  have 2: "TaskResult_get store_with_result 1 =
       (Reply (Results [\<lparr>r_id = 1, r_task_id = 1, r_node_id = 5\<rparr>]) OK, store_with_result)"
  proof (rule prod_eqI)
    show "fst (TaskResult_get store_with_result 1) =
        fst (Reply (Results [\<lparr>r_id = 1, r_task_id = 1, r_node_id = 5\<rparr>]) OK, store_with_result)"
      using w2 b rb by simp
    show "snd (TaskResult_get store_with_result 1) =
        snd (Reply (Results [\<lparr>r_id = 1, r_task_id = 1, r_node_id = 5\<rparr>]) OK, store_with_result)"
      using w2 by simp
  qed
  have 3: "TaskResult_get store_with_result 2 =
       (Reply (Msg ''task id=2 not found'') NOT_FOUND, store_with_result)"
  proof (rule prod_eqI)
    have "fst (TaskResult_get store_with_result 2) =
        Reply (Msg (''task id='' @ str_int 2 @ '' not found'')) NOT_FOUND"
      using w3 c by blast
    then show "fst (TaskResult_get store_with_result 2) =
        fst (Reply (Msg ''task id=2 not found'') NOT_FOUND, store_with_result)"
      by (simp add: two)
    show "snd (TaskResult_get store_with_result 2) =
        snd (Reply (Msg ''task id=2 not found'') NOT_FOUND, store_with_result)"
      using w3 by simp
  qed
  show ?thesis
    using 1 2 3 by (intro conjI)
qed

section \<open>Where the resources part from what is said of them\<close>

lemma str_int_1: "str_int 1 = ''1''"
  by code_simp

lemma str_int_7: "str_int 7 = ''7''"
  by code_simp

text \<open>
  Claim C7. \<^verbatim>\<open>Task.get\<close> without an id on a store without tasks: the list of all tasks is
  empty, \<^verbatim>\<open>not task\<close> holds of it, and the answer is \<^verbatim>\<open>NOT_FOUND\<close> instead of the empty
  collection.
\<close>

theorem empty_listing_not_found:
  "Task_get None empty_store None =
     (Reply (Msg ''task id={} is not found'') NOT_FOUND, empty_store)"
  by (simp add: Task_get_def db_Task_get_def empty_store_def)

text \<open>
  Claim C9. The message of \<^verbatim>\<open>Task.get\<close> for an id that no task has is the literal with
  its placeholder, while \<^verbatim>\<open>TaskResult.get\<close> and \<^verbatim>\<open>Task.delete\<close> name the id.
\<close>

theorem get_message_unformatted:
  "fst (Task_get None store_with_result (Some 7)) =
     Reply (Msg ''task id={} is not found'') NOT_FOUND
   \<and> fst (TaskResult_get store_with_result 7) = Reply (Msg ''task id=7 not found'') NOT_FOUND
   \<and> fst (Task_delete True store_with_result 7) = Reply (Msg ''task id=7 not found'') NOT_FOUND"
  by (simp add: Task_get_def TaskResult_get_def Task_delete_def db_Task_get_def
      store_with_result_def example_task_def str_int_7)

section \<open>Deletion\<close>

lemma delete_unknown:
  assumes "\<forall>t \<in> set (tasks st). t_id t \<noteq> i"
  shows "Task_delete ok st i =
     (Reply (Msg (''task id='' @ str_int i @ '' not found'')) NOT_FOUND, st)"
proof -
  have "find (\<lambda>t. t_id t = i) (tasks st) = None"
    using assms by (simp only: find_task_None)
  then show ?thesis
    by (simp add: Task_delete_def db_Task_get_def)
qed

lemma delete_known:
  assumes "\<exists>t \<in> set (tasks st). t_id t = i"
  shows "Task_delete True st i =
     (Reply (Msg (''task id='' @ str_int i @ '' successfully deleted'')) OK,
      st\<lparr>tasks := filter (\<lambda>t. t_id t \<noteq> i) (tasks st),
         results := filter (\<lambda>r. r_task_id r \<noteq> i) (results st)\<rparr>)"
    and "Task_delete False st i = (Raised PersistenceFailure, st)"
proof -
  obtain t where t: "find (\<lambda>t. t_id t = i) (tasks st) = Some t"
    using assms by (cases "find (\<lambda>t. t_id t = i) (tasks st)") (auto simp: find_task_None)
  from find_task_Some [OF t] have i: "t_id t = i" by blast
  show "Task_delete True st i =
     (Reply (Msg (''task id='' @ str_int i @ '' successfully deleted'')) OK,
      st\<lparr>tasks := filter (\<lambda>t. t_id t \<noteq> i) (tasks st),
         results := filter (\<lambda>r. r_task_id r \<noteq> i) (results st)\<rparr>)"
    using t i by (simp add: Task_delete_def db_Task_get_def db_Task_delete_def)
  show "Task_delete False st i = (Raised PersistenceFailure, st)"
    using t i by (simp add: Task_delete_def db_Task_get_def db_Task_delete_def)
qed

text \<open>
  Claim C2. \<^verbatim>\<open>Task.delete\<close> of an id that a task has answers \<^verbatim>\<open>OK\<close> and leaves the
  store without the task and without any result that refers to it, the other tasks
  and results being as they were; \<^verbatim>\<open>TaskResult.get\<close> of the id then answers
  \<^verbatim>\<open>NOT_FOUND\<close>. The removal is one unit: when it fails the store is unchanged. Of an id
  that no task has, \<^verbatim>\<open>Task.delete\<close> answers \<^verbatim>\<open>NOT_FOUND\<close> and leaves the store as it is.
\<close>

theorem delete_removes_task_and_results:
  "((\<exists>t \<in> set (tasks st). t_id t = i) \<longrightarrow>
      fst (Task_delete True st i) =
        Reply (Msg (''task id='' @ str_int i @ '' successfully deleted'')) OK
      \<and> tasks (snd (Task_delete True st i)) = filter (\<lambda>t. t_id t \<noteq> i) (tasks st)
      \<and> results (snd (Task_delete True st i)) = filter (\<lambda>r. r_task_id r \<noteq> i) (results st)
      \<and> (\<forall>t \<in> set (tasks (snd (Task_delete True st i))). t_id t \<noteq> i)
      \<and> (\<forall>r \<in> set (results (snd (Task_delete True st i))). r_task_id r \<noteq> i)
      \<and> fst (TaskResult_get (snd (Task_delete True st i)) i) =
          Reply (Msg (''task id='' @ str_int i @ '' not found'')) NOT_FOUND
      \<and> Task_delete False st i = (Raised PersistenceFailure, st))
   \<and> ((\<forall>t \<in> set (tasks st). t_id t \<noteq> i) \<longrightarrow>
      Task_delete ok st i =
        (Reply (Msg (''task id='' @ str_int i @ '' not found'')) NOT_FOUND, st))"
proof (intro conjI impI)
  assume k: "\<exists>t \<in> set (tasks st). t_id t = i"
  let ?st = "st\<lparr>tasks := filter (\<lambda>t. t_id t \<noteq> i) (tasks st),
         results := filter (\<lambda>r. r_task_id r \<noteq> i) (results st)\<rparr>"
  note d = delete_known(1) [OF k]
  show "fst (Task_delete True st i) =
        Reply (Msg (''task id='' @ str_int i @ '' successfully deleted'')) OK"
    by (simp only: d fst_conv)
  have s: "snd (Task_delete True st i) = ?st"
    by (simp only: d snd_conv)
  show "tasks (snd (Task_delete True st i)) = filter (\<lambda>t. t_id t \<noteq> i) (tasks st)"
    unfolding s by simp
  show "results (snd (Task_delete True st i)) = filter (\<lambda>r. r_task_id r \<noteq> i) (results st)"
    unfolding s by simp
  show gone: "\<forall>t \<in> set (tasks (snd (Task_delete True st i))). t_id t \<noteq> i"
    unfolding s by simp
  show "\<forall>r \<in> set (results (snd (Task_delete True st i))). r_task_id r \<noteq> i"
    unfolding s by simp
  show "fst (TaskResult_get (snd (Task_delete True st i)) i) =
          Reply (Msg (''task id='' @ str_int i @ '' not found'')) NOT_FOUND"
    using results_unknown [OF gone] by (simp only: fst_conv)
  show "Task_delete False st i = (Raised PersistenceFailure, st)"
    using k by (rule delete_known(2))
next
  assume "\<forall>t \<in> set (tasks st). t_id t \<noteq> i"
  then show "Task_delete ok st i =
        (Reply (Msg (''task id='' @ str_int i @ '' not found'')) NOT_FOUND, st)"
    by (rule delete_unknown)
qed

theorem delete_removes_task_and_results_witness:
  "Task_delete True store_with_result 1 =
     (Reply (Msg ''task id=1 successfully deleted'') OK,
      \<lparr>tasks = [], results = [], next_task_id = 2, next_result_id = 2\<rparr>)
   \<and> fst (TaskResult_get (snd (Task_delete True store_with_result 1)) 1) =
       Reply (Msg ''task id=1 not found'') NOT_FOUND
   \<and> Task_delete True store_with_result 7 =
       (Reply (Msg ''task id=7 not found'') NOT_FOUND, store_with_result)"
proof -
  let ?st = "snd (Task_delete True store_with_result 1)"
  have known: "\<exists>t \<in> set (tasks store_with_result). t_id t = 1"
    by (simp add: store_with_result_def example_task_def)
  have unknown: "\<forall>t \<in> set (tasks store_with_result). t_id t \<noteq> 7"
    by (simp add: store_with_result_def example_task_def)
  have w1: "fst (Task_delete True store_with_result 1) =
        Reply (Msg (''task id='' @ str_int 1 @ '' successfully deleted'')) OK
      \<and> tasks ?st = filter (\<lambda>t. t_id t \<noteq> 1) (tasks store_with_result)
      \<and> results ?st = filter (\<lambda>r. r_task_id r \<noteq> 1) (results store_with_result)
      \<and> (\<forall>t \<in> set (tasks ?st). t_id t \<noteq> 1)
      \<and> (\<forall>r \<in> set (results ?st). r_task_id r \<noteq> 1)
      \<and> fst (TaskResult_get ?st 1) =
          Reply (Msg (''task id='' @ str_int 1 @ '' not found'')) NOT_FOUND
      \<and> Task_delete False store_with_result 1 = (Raised PersistenceFailure, store_with_result)"
    using delete_removes_task_and_results [of store_with_result 1 True] known by blast
  have w7: "Task_delete True store_with_result 7 =
        (Reply (Msg (''task id='' @ str_int 7 @ '' not found'')) NOT_FOUND, store_with_result)"
    using delete_removes_task_and_results [of store_with_result 7 True] unknown by blast
  have f: "fst (Task_delete True store_with_result 1) =
      Reply (Msg ''task id=1 successfully deleted'') OK"
    using w1 [THEN conjunct1] by (simp add: str_int_1)
  have t: "tasks ?st = []"
    using w1 [THEN conjunct2, THEN conjunct1]
    by (simp add: store_with_result_def example_task_def)
  have r: "results ?st = []"
    using w1 [THEN conjunct2, THEN conjunct2, THEN conjunct1]
    by (simp add: store_with_result_def)
  have "?st = store_with_result\<lparr>tasks := filter (\<lambda>t. t_id t \<noteq> 1) (tasks store_with_result),
         results := filter (\<lambda>r. r_task_id r \<noteq> 1) (results store_with_result)\<rparr>"
    by (simp only: delete_known(1) [OF known] snd_conv)
  then have c: "next_task_id ?st = 2" "next_result_id ?st = 2"
    by (simp_all add: store_with_result_def)
  have s: "?st = \<lparr>tasks = [], results = [], next_task_id = 2, next_result_id = 2\<rparr>"
    by (rule store.equality) (simp_all add: t r c)
  have 1: "Task_delete True store_with_result 1 =
     (Reply (Msg ''task id=1 successfully deleted'') OK,
      \<lparr>tasks = [], results = [], next_task_id = 2, next_result_id = 2\<rparr>)"
    by (rule prod_eqI) (simp_all only: fst_conv snd_conv f s)
  have 2: "fst (TaskResult_get ?st 1) = Reply (Msg ''task id=1 not found'') NOT_FOUND"
    using w1 [THEN conjunct2, THEN conjunct2, THEN conjunct2, THEN conjunct2, THEN conjunct2,
        THEN conjunct1]
    by (simp add: str_int_1)
  have 3: "Task_delete True store_with_result 7 =
       (Reply (Msg ''task id=7 not found'') NOT_FOUND, store_with_result)"
    using w7 by (simp add: str_int_7)
  show ?thesis
    using 1 2 3 by (intro conjI)
qed

section \<open>Notification\<close>

lemma get_created_row:
  assumes "store_ok st"
  shows "db_Task_get (created data c st) (Some (next_task_id st)) =
      Found (row_of (next_task_id st) (new_task data c))"
  using store_ok_fresh_task [OF assms]
  by (simp add: db_Task_get_def created_def find_fresh_append)

lemma get_before_creation:
  assumes "store_ok st"
  shows "db_Task_get st (Some (next_task_id st)) = NoTask"
proof -
  have "find (\<lambda>t. t_id t = next_task_id st) (tasks st) = None"
    using store_ok_fresh_task [OF assms] by (simp only: find_task_None)
  then show ?thesis by (simp add: db_Task_get_def)
qed

lemma collaboration_of_row [simp]:
  "t_collaboration_id (row_of i (new_task data c)) = c_id c"
  by (simp add: row_of_def)

lemma post_success:
  assumes "store_ok st"
    and "truthy (py_get data ''collaboration_id'')"
    and "resolve (py_get data ''collaboration_id'') = Some c"
  shows "Task_post resolve True True data st =
     (ReplyBare (TaskObject ((new_task data c)\<lparr>o_id := Some (next_task_id st)\<rparr>)),
      created data c st,
      [\<lparr>n_event = ''new_task'', n_payload = Some (next_task_id st),
        n_room = ''collaboration_'' @ str_int (c_id c), n_namespace = ''/tasks''\<rparr>])"
proof -
  note r = post_ok_response [where resolve = resolve and data = data and st = st, OF assms(2,3)]
  note s = post_ok_store [where resolve = resolve and data = data, OF assms(2,3,1)]
  show ?thesis
    by (rule prod_eqI, simp only: r(1) fst_conv, rule prod_eqI)
      (simp_all only: s r(2) fst_conv snd_conv)
qed

text \<open>
  Claim C4. On a store that satisfies the invariant, a creation that succeeds has
  persisted the task, which the store did not hold before, with one result per node of
  its collaboration, and has then sent exactly one event: the new-task event
  (\<^verbatim>\<open>new_task\<close>), with the id of the new task as its payload and the room
  \<^verbatim>\<open>collaboration_\<close> followed by the id of the collaboration of the task. A creation that
  does not succeed sends no event. Whenever the collaboration resolves and both saves go
  through the creation succeeds, also for a collaboration without nodes: the task is
  then stored with no result and the event is sent all the same.
\<close>

theorem notification_once:
  assumes "store_ok st"
  shows "(fst (Task_post resolve ok1 ok2 data st) = ReplyBare b \<longrightarrow>
      (\<exists>c. resolve (py_get data ''collaboration_id'') = Some c
         \<and> b = TaskObject ((new_task data c)\<lparr>o_id := Some (next_task_id st)\<rparr>)
         \<and> db_Task_get st (Some (next_task_id st)) = NoTask
         \<and> fst (snd (Task_post resolve ok1 ok2 data st)) = created data c st
         \<and> db_Task_get (fst (snd (Task_post resolve ok1 ok2 data st))) (Some (next_task_id st)) =
             Found (row_of (next_task_id st) (new_task data c))
         \<and> t_collaboration_id (row_of (next_task_id st) (new_task data c)) = c_id c
         \<and> map r_node_id (db_Task_results (fst (snd (Task_post resolve ok1 ok2 data st)))
               (next_task_id st)) = c_nodes c
         \<and> snd (snd (Task_post resolve ok1 ok2 data st)) =
             [\<lparr>n_event = ''new_task'', n_payload = Some (next_task_id st),
               n_room = ''collaboration_'' @ str_int (c_id c), n_namespace = ''/tasks''\<rparr>]))
   \<and> ((\<forall>b'. fst (Task_post resolve ok1 ok2 data st) \<noteq> ReplyBare b') \<longrightarrow>
        snd (snd (Task_post resolve ok1 ok2 data st)) = [])
   \<and> (truthy (py_get data ''collaboration_id'')
        \<and> resolve (py_get data ''collaboration_id'') = Some c' \<longrightarrow>
        Task_post resolve True True data st =
          (ReplyBare (TaskObject ((new_task data c')\<lparr>o_id := Some (next_task_id st)\<rparr>)),
           created data c' st,
           [\<lparr>n_event = ''new_task'', n_payload = Some (next_task_id st),
             n_room = ''collaboration_'' @ str_int (c_id c'), n_namespace = ''/tasks''\<rparr>])
        \<and> db_Task_get (created data c' st) (Some (next_task_id st)) =
            Found (row_of (next_task_id st) (new_task data c'))
        \<and> (c_nodes c' = [] \<longrightarrow> db_Task_results (created data c' st) (next_task_id st) = []))"
proof (intro conjI impI)
  assume s: "fst (Task_post resolve ok1 ok2 data st) = ReplyBare b"
  from post_success_inversion [OF s]
  obtain c where ok: "ok1" "ok2" and t: "truthy (py_get data ''collaboration_id'')"
    and c: "resolve (py_get data ''collaboration_id'') = Some c"
    by blast
  have p: "Task_post resolve ok1 ok2 data st =
     (ReplyBare (TaskObject ((new_task data c)\<lparr>o_id := Some (next_task_id st)\<rparr>)),
      created data c st,
      [\<lparr>n_event = ''new_task'', n_payload = Some (next_task_id st),
        n_room = ''collaboration_'' @ str_int (c_id c), n_namespace = ''/tasks''\<rparr>])"
    using post_success [where resolve = resolve and data = data, OF assms t c] ok by simp
  have b: "b = TaskObject ((new_task data c)\<lparr>o_id := Some (next_task_id st)\<rparr>)"
    using s by (simp add: p)
  have rows: "map r_node_id (db_Task_results (created data c st) (next_task_id st)) = c_nodes c"
    by (simp add: results_created [OF assms])
  show "\<exists>c. resolve (py_get data ''collaboration_id'') = Some c
         \<and> b = TaskObject ((new_task data c)\<lparr>o_id := Some (next_task_id st)\<rparr>)
         \<and> db_Task_get st (Some (next_task_id st)) = NoTask
         \<and> fst (snd (Task_post resolve ok1 ok2 data st)) = created data c st
         \<and> db_Task_get (fst (snd (Task_post resolve ok1 ok2 data st))) (Some (next_task_id st)) =
             Found (row_of (next_task_id st) (new_task data c))
         \<and> t_collaboration_id (row_of (next_task_id st) (new_task data c)) = c_id c
         \<and> map r_node_id (db_Task_results (fst (snd (Task_post resolve ok1 ok2 data st)))
               (next_task_id st)) = c_nodes c
         \<and> snd (snd (Task_post resolve ok1 ok2 data st)) =
             [\<lparr>n_event = ''new_task'', n_payload = Some (next_task_id st),
               n_room = ''collaboration_'' @ str_int (c_id c), n_namespace = ''/tasks''\<rparr>]"
    using c b rows get_before_creation [OF assms] get_created_row [OF assms, of data c]
    by (intro exI [of _ c]) (simp add: p)
next
  assume "\<forall>b'. fst (Task_post resolve ok1 ok2 data st) \<noteq> ReplyBare b'"
  then show "snd (snd (Task_post resolve ok1 ok2 data st)) = []"
    by (rule post_no_success_no_event)
next
  assume a: "truthy (py_get data ''collaboration_id'')
        \<and> resolve (py_get data ''collaboration_id'') = Some c'"
  show "Task_post resolve True True data st =
          (ReplyBare (TaskObject ((new_task data c')\<lparr>o_id := Some (next_task_id st)\<rparr>)),
           created data c' st,
           [\<lparr>n_event = ''new_task'', n_payload = Some (next_task_id st),
             n_room = ''collaboration_'' @ str_int (c_id c'), n_namespace = ''/tasks''\<rparr>])"
    using post_success [where resolve = resolve and data = data and c = c', OF assms a [THEN conjunct1] a [THEN conjunct2]] .
next
  show "db_Task_get (created data c' st) (Some (next_task_id st)) =
            Found (row_of (next_task_id st) (new_task data c'))"
    using assms by (rule get_created_row)
next
  assume "c_nodes c' = []"
  then show "db_Task_results (created data c' st) (next_task_id st) = []"
    by (simp add: results_created [OF assms])
qed


theorem notification_once_witness:
  "Task_post (one_collaboration []) True True [''collaboration_id'' \<mapsto> JInt 1] empty_store =
     (ReplyBare (TaskObject ((new_task [''collaboration_id'' \<mapsto> JInt 1]
          \<lparr>c_id = 1, c_name = ''c'', c_nodes = []\<rparr>)\<lparr>o_id := Some 1\<rparr>)),
      created [''collaboration_id'' \<mapsto> JInt 1] \<lparr>c_id = 1, c_name = ''c'', c_nodes = []\<rparr>
        empty_store,
      [\<lparr>n_event = ''new_task'', n_payload = Some 1, n_room = ''collaboration_1'',
        n_namespace = ''/tasks''\<rparr>])
   \<and> db_Task_get (created [''collaboration_id'' \<mapsto> JInt 1]
        \<lparr>c_id = 1, c_name = ''c'', c_nodes = []\<rparr> empty_store) (Some 1) =
       Found (row_of 1 (new_task [''collaboration_id'' \<mapsto> JInt 1]
          \<lparr>c_id = 1, c_name = ''c'', c_nodes = []\<rparr>))
   \<and> db_Task_results (created [''collaboration_id'' \<mapsto> JInt 1]
        \<lparr>c_id = 1, c_name = ''c'', c_nodes = []\<rparr> empty_store) 1 = []
   \<and> db_Task_get empty_store (Some 1) = NoTask
   \<and> snd (snd (Task_post (one_collaboration []) True False
       [''collaboration_id'' \<mapsto> JInt 1] empty_store)) = []"
proof -
  let ?D = "[''collaboration_id'' \<mapsto> JInt 1] :: payload"
  let ?c = "\<lparr>c_id = 1, c_name = ''c'', c_nodes = []\<rparr>"
  let ?R = "one_collaboration []"
  have n: "next_task_id empty_store = 1"
    by (simp add: empty_store_def)
  have t: "truthy (py_get ?D ''collaboration_id'')"
    by (rule one_collaboration_resolves(2))
  have r: "?R (py_get ?D ''collaboration_id'') = Some ?c"
    by (rule one_collaboration_resolves(1))
  have nodes: "c_nodes ?c = []"
    by simp
  note w = notification_once [OF store_ok_empty, where resolve = ?R and data = ?D and c' = ?c]
  have fails: "\<forall>b'. fst (Task_post ?R True False ?D empty_store) \<noteq> ReplyBare b'"
    by (simp add: post_second_fails [where resolve = ?R and data = ?D, OF t r])
  have a: "snd (snd (Task_post ?R True False ?D empty_store)) = []"
    using w [where ?ok1.0 = True and ?ok2.0 = False, THEN conjunct2, THEN conjunct1] fails
    by blast
  note third = w [where ?ok1.0 = True and ?ok2.0 = True, THEN conjunct2, THEN conjunct2]
  have b: "Task_post ?R True True ?D empty_store =
          (ReplyBare (TaskObject ((new_task ?D ?c)\<lparr>o_id := Some (next_task_id empty_store)\<rparr>)),
           created ?D ?c empty_store,
           [\<lparr>n_event = ''new_task'', n_payload = Some (next_task_id empty_store),
             n_room = ''collaboration_'' @ str_int (c_id ?c), n_namespace = ''/tasks''\<rparr>])
        \<and> db_Task_get (created ?D ?c empty_store) (Some (next_task_id empty_store)) =
            Found (row_of (next_task_id empty_store) (new_task ?D ?c))
        \<and> (c_nodes ?c = [] \<longrightarrow>
            db_Task_results (created ?D ?c empty_store) (next_task_id empty_store) = [])"
    using third t r by blast
  have before: "db_Task_get empty_store (Some 1) = NoTask"
    by (simp add: db_Task_get_def empty_store_def)
  have 1: "Task_post ?R True True ?D empty_store =
     (ReplyBare (TaskObject ((new_task ?D ?c)\<lparr>o_id := Some 1\<rparr>)),
      created ?D ?c empty_store,
      [\<lparr>n_event = ''new_task'', n_payload = Some 1, n_room = ''collaboration_1'',
        n_namespace = ''/tasks''\<rparr>])"
    using b [THEN conjunct1] by (simp add: n str_int_1)
  have 2: "db_Task_get (created ?D ?c empty_store) (Some 1) = Found (row_of 1 (new_task ?D ?c))"
    using b [THEN conjunct2, THEN conjunct1] by (simp add: n)
  have 3: "db_Task_results (created ?D ?c empty_store) 1 = []"
    using b [THEN conjunct2, THEN conjunct2] nodes by (simp add: n)
  show ?thesis
    using 1 2 3 before a by (intro conjI)
qed

section \<open>JSON text read back\<close>


lemma digit_char_code: "d < 10 \<Longrightarrow> (of_char (digit_char d) :: nat) = 48 + d"
  by (simp add: digit_char_def)

lemma is_digit_digit_char [simp]: "d < 10 \<Longrightarrow> is_digit (digit_char d)"
  by (simp add: is_digit_def digit_char_code)



lemma str_nat_nonempty [simp]: "str_nat n \<noteq> []"
  by (subst str_nat.simps) simp






lemma terminated_not_float [simp]: "terminated r \<Longrightarrow> \<not> float_follows r"
  by (auto simp: terminated_def float_follows_def split: list.splits)

lemma terminated_no_digit [simp]: "terminated r \<Longrightarrow> takeWhile is_digit r = []"
  by (auto simp: terminated_def is_digit_def split: list.splits)












lemma char_of_eq_code:
  "(char_of (n :: nat) = c) = (n mod 256 = (of_char c :: nat))"
  "(c = char_of (n :: nat)) = ((of_char c :: nat) = n mod 256)"
proof -
  show a: "(char_of n = c) = (n mod 256 = (of_char c :: nat))"
    by (simp add: char_of_eq_iff take_bit_eq_mod)
  show "(c = char_of n) = ((of_char c :: nat) = n mod 256)"
    using a by metis
qed
















lemma skip_ws_space [simp]: "skip_ws (CHR '' '' # s) = skip_ws s"
  by (simp add: skip_ws_def is_ws_def)

lemma skip_ws_Nil [simp]: "skip_ws [] = []"
  by (simp add: skip_ws_def)


lemma parse_value_space [simp]: "parse_value n (CHR '' '' # s) = parse_value n s"
  by (cases n) simp_all

lemma parse_elements_space [simp]: "parse_elements n (CHR '' '' # s) = parse_elements n s"
  by (cases n) simp_all

lemma parse_members_space [simp]: "parse_members n (CHR '' '' # s) = parse_members n s"
  by (cases n) simp_all


lemma is_digit_not_ws: "is_digit c \<Longrightarrow> \<not> is_ws c"
  by (auto simp: is_digit_def is_ws_def char_of_eq_code)
















lemma terminated_codes [simp]:
  "terminated []" "terminated (CHR '','' # r)" "terminated (CHR '']'' # r)" "terminated (CHR ''}'' # r)"
  by (simp_all add: terminated_def)












section \<open>The input of a task\<close>









lemma dumps_example:
  "json_dumps (JObj [(''a'', JInt 1)]) = [CHR ''{'', dquote_char, CHR ''a'', dquote_char, CHR '':'', CHR '' '', CHR ''1'', CHR ''}'']"
  by code_simp

end
